theory Spec2Isabelle
  imports Complex_Main
begin

section \<open>Form data and JavaScript truthiness\<close>

text \<open>
  The browser's \<open>File\<close> object, reduced to the three fields the repository reads:
  \<open>file.name\<close>, \<open>file.type\<close> (the mime type) and \<open>file.size\<close> (a non-negative
  number of bytes), here \<open>File_name\<close>, \<open>File_type\<close> and \<open>File_size\<close>.
\<close>

record File =
  File_name :: string
  File_type :: string
  File_size :: nat

text \<open>
  \<open>AddProofFormData\<close>, the type inferred from \<open>addProofSchema\<close>: both fields are
  optional (\<open>undefined\<close> is \<open>None\<close>); the fields \<open>proofLink\<close> and \<open>file\<close> are \<open>data_proofLink\<close> and \<open>data_file\<close> here.
\<close>

record form_data =
  data_proofLink :: "string option"
  data_file :: "File option"

text \<open>
  \<open>String.prototype.startsWith\<close>: the receiver begins with the given string,
  compared code unit by code unit.
\<close>

definition startsWith :: "string \<Rightarrow> string \<Rightarrow> bool" where
  "startsWith s p = (take (length p) s = p)"

text \<open>
  Truthiness of a value of type \<open>string | undefined\<close>: \<open>undefined\<close> and the empty
  string are falsy, every other string is truthy. A \<open>File\<close> object is always truthy, so
  the truthiness of a \<open>File | undefined\<close> is being present.
\<close>

fun truthy_string :: "string option \<Rightarrow> bool" where
  "truthy_string None = False"
| "truthy_string (Some s) = (s \<noteq> [])"

fun truthy_file :: "File option \<Rightarrow> bool" where
  "truthy_file None = False"
| "truthy_file (Some f) = True"

section \<open>Validation rules (\<open>addProofSchema\<close>)\<close>

text \<open>
  A validation issue as the schema reports it: the message and the path of the field
  it is attached to.
\<close>

record issue =
  message :: string
  path :: "string list"

text \<open>
  The four issues the schema can raise, named as the specification names them. The
  messages and paths are the literals of the source.
\<close>

definition InvalidUrl :: issue where
  "InvalidUrl =
     \<lparr>message = ''Please enter a valid URL format (e.g., https://example.com)'',
      path = [''proofLink'']\<rparr>"

definition MissingInput :: issue where
  "MissingInput =
     \<lparr>message = ''Please provide either a proof link or upload a file'',
      path = [''root'']\<rparr>"

definition UnsupportedFileType :: issue where
  "UnsupportedFileType = \<lparr>message = ''File must be an image or video'', path = [''file'']\<rparr>"

definition FileTooLarge :: "bool \<Rightarrow> issue" where
  "FileTooLarge isImage =
     \<lparr>message = ''File size must be less than '' @ (if isImage then ''1MB'' else ''5MB''),
      path = [''file'']\<rparr>"

text \<open>
  The size limit of the second object-level refinement:
  \<open>isImage ? 1 * 1024 * 1024 : 5 * 1024 * 1024\<close>.
\<close>

definition maxSize :: "bool \<Rightarrow> nat" where
  "maxSize isImage = (if isImage then 1 * 1024 * 1024 else 5 * 1024 * 1024)"

text \<open>
  The check of the second object-level refinement (source lines 39 to 50): no file
  passes; a file that is neither image nor video fails; otherwise the size is compared
  with the limit of its class.
\<close>

definition file_check :: "form_data \<Rightarrow> bool" where
  "file_check data =
     (case data_file data of
        None \<Rightarrow> True
      | Some f \<Rightarrow>
          (let isImage = startsWith (File_type f) ''image/'';
               isVideo = startsWith (File_type f) ''video/''
           in if \<not> isImage \<and> \<not> isVideo then False
              else File_size f \<le> maxSize isImage))"

text \<open>
  The issue that refinement reports when its check fails (source lines 51 to 73).
\<close>

definition file_issue :: "form_data \<Rightarrow> issue" where
  "file_issue data =
     (case data_file data of
        None \<Rightarrow> \<lparr>message = [], path = [''file'']\<rparr>
      | Some f \<Rightarrow>
          (let isImage = startsWith (File_type f) ''image/'';
               isVideo = startsWith (File_type f) ''video/''
           in if \<not> isImage \<and> \<not> isVideo then UnsupportedFileType
              else if File_size f > maxSize isImage then FileTooLarge isImage
              else \<lparr>message = [], path = [''file'']\<rparr>))"

text \<open>
  Parsing a value with \<open>addProofSchema\<close>. The well-formedness test of the validation
  library, \<open>z.string().url()\<close>, is not part of the repository and is the parameter
  \<open>is_url\<close>. A failed refinement adds its issue and does not stop the refinements that
  follow, so the result lists the issues of the \<open>proofLink\<close> field first, then those of
  the two object-level refinements in their order; the empty list is a valid input.
\<close>

definition addProofSchema :: "(string \<Rightarrow> bool) \<Rightarrow> form_data \<Rightarrow> issue list" where
  "addProofSchema is_url data =
     (case data_proofLink data of
        None \<Rightarrow> []
      | Some val \<Rightarrow> if val = [] \<or> is_url val then [] else [InvalidUrl])
     @ (if truthy_string (data_proofLink data) \<or> truthy_file (data_file data) then []
        else [MissingInput])
     @ (if file_check data then [] else [file_issue data])"

section \<open>File upload zone\<close>

text \<open>
  What a handler of the zone does, in order: a browser \<open>alert\<close> with its message, or a
  call of the \<open>onFileChange\<close> callback with the accepted file (\<open>None\<close> is
  \<open>undefined\<close>, which clears the selection).
\<close>

datatype zone_effect = ZoneAlert string | OnFileChange "File option"

text \<open>
  \<open>handleFileDrop\<close>, applied to \<open>item.files\<close>: an empty payload does nothing; otherwise
  the first file is checked for its mime class, then for its size, and only then handed
  to the callback.
\<close>

definition handleFileDrop :: "File list \<Rightarrow> zone_effect list" where
  "handleFileDrop files =
     (case files of
        [] \<Rightarrow> []
      | f # _ \<Rightarrow>
          (let isImage = startsWith (File_type f) ''image/'';
               isVideo = startsWith (File_type f) ''video/''
           in if \<not> isImage \<and> \<not> isVideo
              then [ZoneAlert ''Please upload only image or video files'']
              else if File_size f > maxSize isImage
              then [ZoneAlert (''File size must be less than '' @
                               (if isImage then ''1MB'' else ''5MB''))]
              else [OnFileChange (Some f)]))"

text \<open>The \<open>canDrop\<close> predicate of the drop target: the hover state only looks at the class.\<close>

definition canDrop :: "File list \<Rightarrow> bool" where
  "canDrop files =
     (case files of
        [] \<Rightarrow> False
      | f # _ \<Rightarrow> startsWith (File_type f) ''image/'' \<or> startsWith (File_type f) ''video/'')"

text \<open>
  \<open>handleInputChange\<close>, applied to \<open>event.target.files\<close> (\<open>None\<close> is \<open>null\<close>):
  \<open>files?.[0]\<close> is the first chosen file or \<open>undefined\<close>, and it goes to the callback
  as it is.
\<close>

definition handleInputChange :: "File list option \<Rightarrow> zone_effect list" where
  "handleInputChange files =
     [OnFileChange (case files of None \<Rightarrow> None | Some [] \<Rightarrow> None | Some (f # _) \<Rightarrow> Some f)]"

text \<open>
  The file the form holds after a handler ran: the callback (\<open>handleFileChange\<close> of the
  form) stores its argument in the \<open>file\<close> field, an alert leaves the field alone.
\<close>

fun selected_after :: "File option \<Rightarrow> zone_effect list \<Rightarrow> File option" where
  "selected_after cur [] = cur"
| "selected_after cur (ZoneAlert m # es) = selected_after cur es"
| "selected_after cur (OnFileChange f # es) = selected_after f es"

text \<open>The alerts a handler raised, in order.\<close>

fun zone_alerts :: "zone_effect list \<Rightarrow> string list" where
  "zone_alerts [] = []"
| "zone_alerts (ZoneAlert m # es) = m # zone_alerts es"
| "zone_alerts (OnFileChange f # es) = zone_alerts es"

text \<open>The type and size check of the validation rules, on a single file.\<close>

definition precheck :: "File \<Rightarrow> bool" where
  "precheck f = file_check \<lparr>data_proofLink = None, data_file = Some f\<rparr>"

text \<open>
  The drop target as the component registers it with \<open>useDrop\<close>: \<open>drop\<close> is
  \<open>handleFileDrop\<close> and \<open>canDrop\<close> is the predicate above. The drag-and-drop library
  calls \<open>drop\<close> only for a payload that \<open>canDrop\<close> accepts; a payload it refuses never
  reaches the handler.
\<close>

definition zone_drop :: "File list \<Rightarrow> zone_effect list" where
  "zone_drop files = (if canDrop files then handleFileDrop files else [])"

text \<open>
  The text of the drop zone's label, from the two flags the drop target collects
  (\<open>isOver\<close> and \<open>canDrop\<close>) and the selected file.
\<close>

definition dropZoneLabel :: "bool \<Rightarrow> bool \<Rightarrow> File option \<Rightarrow> string" where
  "dropZoneLabel isOver canDrop' watchedFile =
     (if isOver \<and> canDrop' then ''Drop file here to upload''
      else if isOver \<and> \<not> canDrop' then ''Invalid file type''
      else (case watchedFile of
              Some f \<Rightarrow> File_name f
            | None \<Rightarrow> ''Click to upload or drag and drop''))"

section \<open>Media viewer\<close>

text \<open>
  JavaScript numbers are modelled exactly: the scale as a real number (every value the
  viewer reaches is a multiple of one quarter between 0.25 and 3, which binary floating
  point represents and adds without rounding), pointer coordinates as real numbers, the
  rotation as an integer.
\<close>

record point =
  px :: real
  py :: real

definition origin :: point where
  "origin = \<lparr>px = 0, py = 0\<rparr>"

text \<open>The state hooks of \<open>MediaViewer\<close>.\<close>

record viewer =
  imageScale :: real
  imageRotation :: int
  panPosition :: point
  isDragging :: bool
  dragStart :: point
  isLoading :: bool

definition initial_viewer :: viewer where
  "initial_viewer =
     \<lparr>imageScale = 1, imageRotation = 0, panPosition = origin, isDragging = False,
      dragStart = origin, isLoading = True\<rparr>"

text \<open>
  The remainder operator \<open>%\<close> of JavaScript on integers: the result has the sign of the
  dividend.
\<close>

definition js_rem :: "int \<Rightarrow> int \<Rightarrow> int" where
  "js_rem a b = sgn a * (\<bar>a\<bar> mod \<bar>b\<bar>)"

definition handleZoomIn :: "viewer \<Rightarrow> viewer" where
  "handleZoomIn v = v\<lparr>imageScale := min (imageScale v + 1/4) 3\<rparr>"

definition handleZoomOut :: "viewer \<Rightarrow> viewer" where
  "handleZoomOut v =
     (let newScale = max (imageScale v - 1/4) (1/4)
      in (if newScale \<le> 1 then v\<lparr>panPosition := origin\<rparr> else v)\<lparr>imageScale := newScale\<rparr>)"

definition handleRotate :: "viewer \<Rightarrow> viewer" where
  "handleRotate v = v\<lparr>imageRotation := js_rem (imageRotation v + 90) 360\<rparr>"

definition handleReset :: "viewer \<Rightarrow> viewer" where
  "handleReset v = v\<lparr>imageScale := 1, imageRotation := 0, panPosition := origin\<rparr>"

text \<open>\<open>Math.max(-maxOffset, Math.min(maxOffset, n))\<close> with \<open>maxOffset = 200\<close>.\<close>

definition constrain :: "real \<Rightarrow> real" where
  "constrain n = max (- 200) (min 200 n)"

text \<open>
  The pointer handlers. \<open>isImage\<close> is \<open>fileType.startsWith("image/")\<close>, fixed for the
  life of the viewer; the point is \<open>(clientX, clientY)\<close> of the mouse event.
\<close>

definition handleMouseDown :: "bool \<Rightarrow> point \<Rightarrow> viewer \<Rightarrow> viewer" where
  "handleMouseDown isImage e v =
     (if isImage \<and> imageScale v > 1
      then v\<lparr>isDragging := True,
             dragStart := \<lparr>px = px e - px (panPosition v), py = py e - py (panPosition v)\<rparr>\<rparr>
      else v)"

definition handleMouseMove :: "point \<Rightarrow> viewer \<Rightarrow> viewer" where
  "handleMouseMove e v =
     (if isDragging v \<and> imageScale v > 1
      then (let newX = px e - px (dragStart v);
                newY = py e - py (dragStart v)
            in v\<lparr>panPosition := \<lparr>px = constrain newX, py = constrain newY\<rparr>\<rparr>)
      else v)"

definition handleMouseUp :: "viewer \<Rightarrow> viewer" where
  "handleMouseUp v = v\<lparr>isDragging := False\<rparr>"

definition handleMouseLeave :: "viewer \<Rightarrow> viewer" where
  "handleMouseLeave v = v\<lparr>isDragging := False\<rparr>"

text \<open>The touch handlers take \<open>e.touches\<close>, the list of the active touch points.\<close>

definition handleTouchStart :: "bool \<Rightarrow> point list \<Rightarrow> viewer \<Rightarrow> viewer" where
  "handleTouchStart isImage touches v =
     (case touches of
        [touch] \<Rightarrow>
          (if isImage \<and> imageScale v > 1
           then v\<lparr>isDragging := True,
                  dragStart := \<lparr>px = px touch - px (panPosition v),
                                py = py touch - py (panPosition v)\<rparr>\<rparr>
           else v)
      | _ \<Rightarrow> v)"

definition handleTouchMove :: "point list \<Rightarrow> viewer \<Rightarrow> viewer" where
  "handleTouchMove touches v =
     (case touches of
        [touch] \<Rightarrow>
          (if isDragging v \<and> imageScale v > 1
           then (let newX = px touch - px (dragStart v);
                     newY = py touch - py (dragStart v)
                 in v\<lparr>panPosition := \<lparr>px = constrain newX, py = constrain newY\<rparr>\<rparr>)
           else v)
      | _ \<Rightarrow> v)"

definition handleTouchEnd :: "viewer \<Rightarrow> viewer" where
  "handleTouchEnd v = v\<lparr>isDragging := False\<rparr>"

definition resetImageControls :: "viewer \<Rightarrow> viewer" where
  "resetImageControls v =
     v\<lparr>imageScale := 1, imageRotation := 0, panPosition := origin, isDragging := False,
       isLoading := True\<rparr>"

text \<open>
  The events of the viewer, one per handler; \<open>Close\<close> is \<open>handleClose\<close>, which runs
  \<open>resetImageControls\<close>, and \<open>Loaded\<close> is the \<open>onLoad\<close>, \<open>onLoadedData\<close> or
  \<open>onError\<close> of the media element. Each handler runs on the state its predecessors left.
\<close>

datatype event =
    ZoomIn | ZoomOut | Rotate | Reset
  | MouseDown point | MouseMove point | MouseUp | MouseLeave
  | TouchStart "point list" | TouchMove "point list" | TouchEnd
  | Close | Loaded

fun step :: "bool \<Rightarrow> viewer \<Rightarrow> event \<Rightarrow> viewer" where
  "step isImage v ZoomIn = handleZoomIn v"
| "step isImage v ZoomOut = handleZoomOut v"
| "step isImage v Rotate = handleRotate v"
| "step isImage v Reset = handleReset v"
| "step isImage v (MouseDown e) = handleMouseDown isImage e v"
| "step isImage v (MouseMove e) = handleMouseMove e v"
| "step isImage v MouseUp = handleMouseUp v"
| "step isImage v MouseLeave = handleMouseLeave v"
| "step isImage v (TouchStart ts) = handleTouchStart isImage ts v"
| "step isImage v (TouchMove ts) = handleTouchMove ts v"
| "step isImage v TouchEnd = handleTouchEnd v"
| "step isImage v Close = resetImageControls v"
| "step isImage v Loaded = v\<lparr>isLoading := False\<rparr>"

text \<open>The state of a viewer after a sequence of events, from the initial state.\<close>

definition run :: "bool \<Rightarrow> event list \<Rightarrow> viewer" where
  "run isImage evs = foldl (step isImage) initial_viewer evs"

text \<open>
  The \<open>transform\<close> style of the image element, as the list of its transform functions
  in the order they are written: \<open>scale(s) rotate(r deg) translate(a px, b px)\<close>. The
  element is rendered only for an image.
\<close>

datatype transform_function = Scale real | RotateDeg int | TranslatePx real real

definition img_transform :: "bool \<Rightarrow> viewer \<Rightarrow> transform_function list option" where
  "img_transform isImage v =
     (if isImage
      then Some [Scale (imageScale v), RotateDeg (imageRotation v),
                 TranslatePx (px (panPosition v) / imageScale v)
                             (py (panPosition v) / imageScale v)]
      else None)"

definition pan_in_range :: "point \<Rightarrow> bool" where
  "pan_in_range p = (- 200 \<le> px p \<and> px p \<le> 200 \<and> - 200 \<le> py p \<and> py p \<le> 200)"

text \<open>
  The ranges the viewer keeps: the scale between 0.25 and 3, the rotation a multiple of
  a quarter turn below a full turn, and both, with the pan range, as the invariant of
  the viewer's state.
\<close>

definition scale_in_range :: "real \<Rightarrow> bool" where
  "scale_in_range s = (1/4 \<le> s \<and> s \<le> 3)"

definition rotation_ok :: "int \<Rightarrow> bool" where
  "rotation_ok r = (r = 0 \<or> r = 90 \<or> r = 180 \<or> r = 270)"

definition viewer_inv :: "viewer \<Rightarrow> bool" where
  "viewer_inv v =
     (scale_in_range (imageScale v) \<and> rotation_ok (imageRotation v) \<and>
      pan_in_range (panPosition v))"

text \<open>The multiples of one quarter from 0.25 to 3.\<close>

definition scale_quarters :: "real list" where
  "scale_quarters = [1/4, 1/2, 3/4, 1, 5/4, 3/2, 7/4, 2, 9/4, 5/2, 11/4, 3]"

section \<open>Backend adapters\<close>

text \<open>
  The result of the upload adapter, \<open>{ url: string; error?: string }\<close>. The hosted
  storage client is outside the repository: its answer to \<open>upload\<close> is a parameter
  of the adapter, either an exception, an error object with its message, or success;
  so is \<open>getPublicUrl\<close>, which returns the URL or throws (\<open>None\<close>). The storage key
  (\<open>filePath\<close>, built from the clock, a random suffix and the file's extension) is a
  parameter as well. Whatever is thrown inside the adapter is caught there.
\<close>

record upload_result =
  url :: string
  error :: "string option"

datatype storage_response = StorageThrows | StorageError string | StorageOk

definition uploadFileToSupabase ::
  "(string \<Rightarrow> File \<Rightarrow> storage_response) \<Rightarrow> (string \<Rightarrow> string option) \<Rightarrow> string \<Rightarrow> File \<Rightarrow>
   upload_result"
where
  "uploadFileToSupabase storage_upload getPublicUrl filePath f =
     (case storage_upload filePath f of
        StorageThrows \<Rightarrow> \<lparr>url = [], error = Some ''Failed to upload file''\<rparr>
      | StorageError m \<Rightarrow> \<lparr>url = [], error = Some m\<rparr>
      | StorageOk \<Rightarrow>
          (case getPublicUrl filePath of
             None \<Rightarrow> \<lparr>url = [], error = Some ''Failed to upload file''\<rparr>
           | Some publicUrl \<Rightarrow> \<lparr>url = publicUrl, error = None\<rparr>))"

text \<open>\<open>ProofSubmission\<close>, the argument of the insert adapter.\<close>

record ProofSubmission =
  proofLink :: "string option"
  fileName :: "string option"
  fileUrl :: "string option"
  fileSize :: "nat option"
  fileType :: "string option"

text \<open>The row the insert adapter sends to the \<open>proofs\<close> table.\<close>

record proofs_row =
  proof_link :: "string option"
  file_name :: "string option"
  file_url :: "string option"
  file_size :: "nat option"
  file_type :: "string option"
  created_at :: string
  row_status :: string

text \<open>The result of the insert adapter, \<open>{ success: boolean; error?: string; id?: number }\<close>.\<close>

record db_result =
  success :: bool
  db_error :: "string option"
  db_id :: "int option"

datatype db_response = DbThrows | DbError string | DbOk int

text \<open>
  The row built by \<open>insertProofRecord\<close>, a server action: \<open>now\<close> is
  \<open>new Date().toISOString()\<close> read on the server when the action runs.
\<close>

definition insert_row :: "string \<Rightarrow> ProofSubmission \<Rightarrow> proofs_row" where
  "insert_row now proofData =
     \<lparr>proof_link = proofLink proofData,
      file_name = fileName proofData,
      file_url = fileUrl proofData,
      file_size = fileSize proofData,
      file_type = fileType proofData,
      created_at = now,
      row_status = ''pending''\<rparr>"

text \<open>
  \<open>insertProofRecord\<close>; the answer of the hosted database to the insert of a row,
  followed by \<open>select("id").single()\<close>, is the parameter \<open>db_insert\<close>.
\<close>

definition insertProofRecord ::
  "(proofs_row \<Rightarrow> db_response) \<Rightarrow> string \<Rightarrow> ProofSubmission \<Rightarrow> db_result"
where
  "insertProofRecord db_insert now proofData =
     (case db_insert (insert_row now proofData) of
        DbThrows \<Rightarrow>
          \<lparr>success = False, db_error = Some ''Failed to save proof record'', db_id = None\<rparr>
      | DbError m \<Rightarrow> \<lparr>success = False, db_error = Some m, db_id = None\<rparr>
      | DbOk i \<Rightarrow> \<lparr>success = True, db_error = None, db_id = Some i\<rparr>)"

section \<open>Submission form\<close>

text \<open>
  \<open>SubmissionResult\<close>: the fields of a \<open>ProofSubmission\<close>, then \<open>id\<close> (here
  \<open>result_id\<close>), \<open>submittedAt\<close> and \<open>status\<close>.
\<close>

record SubmissionResult = ProofSubmission +
  result_id :: "int option"
  submittedAt :: string
  status :: string

text \<open>
  A value thrown by an awaited call: an \<open>Error\<close> with its message, or anything else.
\<close>

datatype thrown = ThrownError string | ThrownOther

text \<open>
  What \<open>onSubmit\<close> does that can be seen from outside, in order: the state setters,
  the calls of the two collaborators with their arguments, the alerts, and the form's
  \<open>reset\<close>. Console output is left out.
\<close>

datatype effect =
    SetIsSubmitting bool
  | CallUpload File
  | CallInsert ProofSubmission
  | Alert string
  | SetSubmissionResult SubmissionResult
  | ResetForm

text \<open>A value of type \<open>string | undefined\<close> inside a template literal.\<close>

fun template_string :: "string option \<Rightarrow> string" where
  "template_string None = ''undefined''"
| "template_string (Some s) = s"

text \<open>The \<open>catch\<close> block of \<open>onSubmit\<close>.\<close>

definition catch_block :: "thrown \<Rightarrow> effect list" where
  "catch_block e =
     [Alert (''Submission failed: '' @
             (case e of ThrownError m \<Rightarrow> m | ThrownOther \<Rightarrow> ''Unknown error''))]"

text \<open>
  The first part of the \<open>try\<close> block (source lines 82 to 96): the upload, if a file is
  present. The result is the exception thrown, or the effects so far with the two local
  variables \<open>fileUrl\<close> and \<open>uploadError\<close>. The test \<open>if (uploadResult.error)\<close> is a
  truthiness test.
\<close>

definition upload_step ::
  "(File \<Rightarrow> thrown + upload_result) \<Rightarrow> form_data \<Rightarrow>
   effect list \<times> (thrown + string option \<times> string option)"
where
  "upload_step upload data =
     (case data_file data of
        None \<Rightarrow> ([], Inr (None, None))
      | Some f \<Rightarrow>
          ([CallUpload f],
           (case upload f of
              Inl e \<Rightarrow> Inl e
            | Inr uploadResult \<Rightarrow>
                if truthy_string (error uploadResult)
                then Inr (None, error uploadResult)
                else Inr (Some (url uploadResult), None))))"

text \<open>
  The rest of the \<open>try\<close> block (source lines 104 to 139), reached when the upload did
  not stop the submission; \<open>now\<close> is \<open>new Date().toISOString()\<close> read in the browser.
\<close>

definition insert_step ::
  "(ProofSubmission \<Rightarrow> thrown + db_result) \<Rightarrow> string \<Rightarrow> form_data \<Rightarrow> string option \<Rightarrow>
   effect list"
where
  "insert_step insertRecord now data fileUrl' =
     (let proofData =
            \<lparr>proofLink = data_proofLink data,
             fileName = map_option File_name (data_file data),
             fileUrl = fileUrl',
             fileSize = map_option File_size (data_file data),
             fileType = map_option File_type (data_file data)\<rparr>
      in CallInsert proofData #
         (case insertRecord proofData of
            Inl e \<Rightarrow> catch_block e
          | Inr dbResult \<Rightarrow>
              if \<not> success dbResult
              then [Alert (''Database error: '' @ template_string (db_error dbResult))]
              else [SetSubmissionResult
                      \<lparr>proofLink = data_proofLink data,
                       fileName = map_option File_name (data_file data),
                       fileUrl = fileUrl',
                       fileSize = map_option File_size (data_file data),
                       fileType = map_option File_type (data_file data),
                       result_id = db_id dbResult,
                       submittedAt = now,
                       status = ''pending''\<rparr>,
                    ResetForm]))"

text \<open>
  \<open>onSubmit\<close>: the two collaborators are parameters, each returning a value or
  throwing. The \<open>finally\<close> block runs on every path.
\<close>

definition onSubmit ::
  "(File \<Rightarrow> thrown + upload_result) \<Rightarrow> (ProofSubmission \<Rightarrow> thrown + db_result) \<Rightarrow> string \<Rightarrow>
   form_data \<Rightarrow> effect list"
where
  "onSubmit upload insertRecord now data =
     [SetIsSubmitting True]
     @ (case upload_step upload data of
          (effs, Inl e) \<Rightarrow> effs @ catch_block e
        | (effs, Inr (fileUrl', uploadError)) \<Rightarrow>
            if truthy_string uploadError
            then effs @ [Alert (''File upload failed: '' @ template_string uploadError)]
            else effs @ insert_step insertRecord now data fileUrl')
     @ [SetIsSubmitting False]"

text \<open>Projections of a trace of effects.\<close>

fun is_upload :: "effect \<Rightarrow> bool" where
  "is_upload (CallUpload f) = True"
| "is_upload _ = False"

fun is_insert :: "effect \<Rightarrow> bool" where
  "is_insert (CallInsert p) = True"
| "is_insert _ = False"

fun is_result :: "effect \<Rightarrow> bool" where
  "is_result (SetSubmissionResult r) = True"
| "is_result _ = False"

fun alerts :: "effect list \<Rightarrow> string list" where
  "alerts [] = []"
| "alerts (Alert m # es) = m # alerts es"
| "alerts (_ # es) = alerts es"

section \<open>Validation rules: properties\<close>

lemma issue_distinct:
  "InvalidUrl \<noteq> MissingInput" "InvalidUrl \<noteq> UnsupportedFileType"
  "InvalidUrl \<noteq> FileTooLarge b" "MissingInput \<noteq> UnsupportedFileType"
  "MissingInput \<noteq> FileTooLarge b" "UnsupportedFileType \<noteq> FileTooLarge b"
  "MissingInput \<noteq> InvalidUrl" "UnsupportedFileType \<noteq> InvalidUrl"
  "FileTooLarge b \<noteq> InvalidUrl" "UnsupportedFileType \<noteq> MissingInput"
  "FileTooLarge b \<noteq> MissingInput" "FileTooLarge b \<noteq> UnsupportedFileType"
  by (simp_all add: InvalidUrl_def MissingInput_def UnsupportedFileType_def FileTooLarge_def)

lemma image_not_video:
  "startsWith t ''image/'' \<Longrightarrow> \<not> startsWith t ''video/''"
  by (auto simp: startsWith_def)

lemma issue_paths:
  "path InvalidUrl = [''proofLink'']" "path MissingInput = [''root'']"
  "path UnsupportedFileType = [''file'']" "path (FileTooLarge b) = [''file'']"
  by (simp_all add: InvalidUrl_def MissingInput_def UnsupportedFileType_def FileTooLarge_def)

lemma maxSize_values: "maxSize True = 1048576" "maxSize False = 5242880"
  by (simp_all add: maxSize_def)

lemma set_addProofSchema:
  "set (addProofSchema is_url data) =
     (case data_proofLink data of None \<Rightarrow> {}
      | Some val \<Rightarrow> if val = [] \<or> is_url val then {} else {InvalidUrl})
     \<union> (if truthy_string (data_proofLink data) \<or> truthy_file (data_file data) then {}
        else {MissingInput})
     \<union> (if file_check data then {} else {file_issue data})"
  by (auto simp: addProofSchema_def split: option.splits)

lemma file_check_Some:
  "data_file data = Some f \<Longrightarrow>
   file_check data =
     ((startsWith (File_type f) ''image/'' \<and> File_size f \<le> 1048576) \<or>
      (startsWith (File_type f) ''video/'' \<and> File_size f \<le> 5242880))"
  using image_not_video [of "File_type f"]
  by (auto simp: file_check_def Let_def maxSize_def)

lemma file_issue_image:
  "data_file data = Some f \<Longrightarrow> startsWith (File_type f) ''image/'' \<Longrightarrow>
   \<not> file_check data \<Longrightarrow> file_issue data = FileTooLarge True"
  using image_not_video [of "File_type f"]
  by (auto simp: file_check_def file_issue_def Let_def maxSize_def)

lemma file_issue_video:
  "data_file data = Some f \<Longrightarrow> startsWith (File_type f) ''video/'' \<Longrightarrow>
   \<not> file_check data \<Longrightarrow> file_issue data = FileTooLarge False"
proof -
  assume f: "data_file data = Some f" and vid: "startsWith (File_type f) ''video/''"
    and bad: "\<not> file_check data"
  have "\<not> startsWith (File_type f) ''image/''"
    using vid image_not_video by blast
  then show ?thesis
    using f vid bad by (simp add: file_check_def file_issue_def Let_def)
qed

lemma file_issue_other:
  "data_file data = Some f \<Longrightarrow> \<not> startsWith (File_type f) ''image/'' \<Longrightarrow>
   \<not> startsWith (File_type f) ''video/'' \<Longrightarrow>
   \<not> file_check data \<and> file_issue data = UnsupportedFileType"
  by (auto simp: file_check_def file_issue_def Let_def)

text \<open>
  Claim C2. For a form value whose file is an image (its mime type starts with
  \<open>image/\<close>), validation reports the issue "file too large" if and only if the size is
  above 1,048,576 bytes; for a video, if and only if the size is above 5,242,880 bytes.
  A file of exactly the limit of its class gets no issue on the \<open>file\<close> field.
\<close>

theorem size_limit_iff:
  assumes "data_file data = Some f"
  shows "(startsWith (File_type f) ''image/'' \<longrightarrow>
            ((\<exists>b. FileTooLarge b \<in> set (addProofSchema is_url data)) \<longleftrightarrow> File_size f > 1048576) \<and>
            (FileTooLarge True \<in> set (addProofSchema is_url data) \<longleftrightarrow> File_size f > 1048576) \<and>
            (File_size f = 1048576 \<longrightarrow>
               filter (\<lambda>i. path i = [''file'']) (addProofSchema is_url data) = [])) \<and>
         (startsWith (File_type f) ''video/'' \<longrightarrow>
            ((\<exists>b. FileTooLarge b \<in> set (addProofSchema is_url data)) \<longleftrightarrow> File_size f > 5242880) \<and>
            (FileTooLarge False \<in> set (addProofSchema is_url data) \<longleftrightarrow> File_size f > 5242880) \<and>
            (File_size f = 5242880 \<longrightarrow>
               filter (\<lambda>i. path i = [''file'']) (addProofSchema is_url data) = []))"
proof (intro conjI impI)
  assume img: "startsWith (File_type f) ''image/''"
  have chk: "file_check data = (File_size f \<le> 1048576)"
    using assms img image_not_video [of "File_type f"] by (simp add: file_check_Some)
  show "(\<exists>b. FileTooLarge b \<in> set (addProofSchema is_url data)) \<longleftrightarrow> File_size f > 1048576"
    using chk file_issue_image [OF assms img]
    by (auto simp: set_addProofSchema issue_distinct split: option.splits if_splits)
  show "FileTooLarge True \<in> set (addProofSchema is_url data) \<longleftrightarrow> File_size f > 1048576"
    using chk file_issue_image [OF assms img]
    by (auto simp: set_addProofSchema issue_distinct split: option.splits if_splits)
  show "filter (\<lambda>i. path i = [''file'']) (addProofSchema is_url data) = []"
    if "File_size f = 1048576"
    using that chk by (simp add: addProofSchema_def issue_paths split: option.splits)
next
  assume vid: "startsWith (File_type f) ''video/''"
  have chk: "file_check data = (File_size f \<le> 5242880)"
    using assms vid image_not_video [of "File_type f"] by (auto simp: file_check_Some)
  show "(\<exists>b. FileTooLarge b \<in> set (addProofSchema is_url data)) \<longleftrightarrow> File_size f > 5242880"
    using chk file_issue_video [OF assms vid]
    by (auto simp: set_addProofSchema issue_distinct split: option.splits if_splits)
  show "FileTooLarge False \<in> set (addProofSchema is_url data) \<longleftrightarrow> File_size f > 5242880"
    using chk file_issue_video [OF assms vid]
    by (auto simp: set_addProofSchema issue_distinct split: option.splits if_splits)
  show "filter (\<lambda>i. path i = [''file'']) (addProofSchema is_url data) = []"
    if "File_size f = 5242880"
    using that chk by (simp add: addProofSchema_def issue_paths split: option.splits)
qed


text \<open>
  The theorem at an image of 2 MiB and a video of 5 MiB and one byte, which are too
  large, and at an image of exactly 1 MiB and a video of exactly 5 MiB, which pass.
\<close>

theorem size_limit_iff_witness:
  "FileTooLarge True \<in> set (addProofSchema (\<lambda>u. True)
       \<lparr>data_proofLink = None, data_file = Some \<lparr>File_name = ''a.png'', File_type = ''image/png'', File_size = 2097152\<rparr>\<rparr>) \<and>
   FileTooLarge False \<in> set (addProofSchema (\<lambda>u. True)
       \<lparr>data_proofLink = None, data_file = Some \<lparr>File_name = ''d.mp4'', File_type = ''video/mp4'', File_size = 5242881\<rparr>\<rparr>) \<and>
   filter (\<lambda>i. path i = [''file'']) (addProofSchema (\<lambda>u. True)
       \<lparr>data_proofLink = None, data_file = Some \<lparr>File_name = ''c.png'', File_type = ''image/png'', File_size = 1048576\<rparr>\<rparr>) = [] \<and>
   filter (\<lambda>i. path i = [''file'']) (addProofSchema (\<lambda>u. True)
       \<lparr>data_proofLink = None, data_file = Some \<lparr>File_name = ''b.mp4'', File_type = ''video/mp4'', File_size = 5242880\<rparr>\<rparr>) = []"
  using
    size_limit_iff [of "\<lparr>data_proofLink = None, data_file = Some \<lparr>File_name = ''a.png'', File_type = ''image/png'', File_size = 2097152\<rparr>\<rparr>"
      "\<lparr>File_name = ''a.png'', File_type = ''image/png'', File_size = 2097152\<rparr>" "\<lambda>u. True"]
    size_limit_iff [of "\<lparr>data_proofLink = None, data_file = Some \<lparr>File_name = ''d.mp4'', File_type = ''video/mp4'', File_size = 5242881\<rparr>\<rparr>"
      "\<lparr>File_name = ''d.mp4'', File_type = ''video/mp4'', File_size = 5242881\<rparr>" "\<lambda>u. True"]
    size_limit_iff [of "\<lparr>data_proofLink = None, data_file = Some \<lparr>File_name = ''c.png'', File_type = ''image/png'', File_size = 1048576\<rparr>\<rparr>"
      "\<lparr>File_name = ''c.png'', File_type = ''image/png'', File_size = 1048576\<rparr>" "\<lambda>u. True"]
    size_limit_iff [of "\<lparr>data_proofLink = None, data_file = Some \<lparr>File_name = ''b.mp4'', File_type = ''video/mp4'', File_size = 5242880\<rparr>\<rparr>"
      "\<lparr>File_name = ''b.mp4'', File_type = ''video/mp4'', File_size = 5242880\<rparr>" "\<lambda>u. True"]
  by (simp add: startsWith_def)

text \<open>
  Claim C3. Validation reports the issue "missing input" exactly when the link is absent
  or empty and no file is present. A value with both a non-empty link and a file gets
  the issues of the link alone followed by those of the file alone, and nothing for
  having both.
\<close>

theorem missing_input_iff:
  "(MissingInput \<in> set (addProofSchema is_url data) \<longleftrightarrow>
      (data_proofLink data = None \<or> data_proofLink data = Some []) \<and> data_file data = None) \<and>
   (l \<noteq> [] \<longrightarrow>
      addProofSchema is_url \<lparr>data_proofLink = Some l, data_file = Some f\<rparr> =
        addProofSchema is_url \<lparr>data_proofLink = Some l, data_file = None\<rparr> @
        addProofSchema is_url \<lparr>data_proofLink = None, data_file = Some f\<rparr>)"
proof (intro conjI impI)
  have no_file: "file_check data" if "data_file data = None"
    using that by (simp add: file_check_def)
  have not_missing: "file_issue data \<noteq> MissingInput"
    by (simp add: file_issue_def MissingInput_def UnsupportedFileType_def FileTooLarge_def
        Let_def split: option.splits)
  have absent: "truthy_string (data_proofLink data) \<or> truthy_file (data_file data) \<longleftrightarrow>
      \<not> ((data_proofLink data = None \<or> data_proofLink data = Some []) \<and> data_file data = None)"
    by (cases "data_proofLink data"; cases "data_file data") simp_all
  show "MissingInput \<in> set (addProofSchema is_url data) \<longleftrightarrow>
      (data_proofLink data = None \<or> data_proofLink data = Some []) \<and> data_file data = None"
    unfolding set_addProofSchema using absent not_missing no_file
    by (auto simp: issue_distinct split: option.splits if_splits)
next
  assume "l \<noteq> []"
  then show "addProofSchema is_url \<lparr>data_proofLink = Some l, data_file = Some f\<rparr> =
        addProofSchema is_url \<lparr>data_proofLink = Some l, data_file = None\<rparr> @
        addProofSchema is_url \<lparr>data_proofLink = None, data_file = Some f\<rparr>"
    by (simp add: addProofSchema_def file_check_def file_issue_def)
qed

text \<open>
  The theorem at an empty link without a file, and at a value with a link and a small
  image, which is valid.
\<close>

theorem missing_input_iff_witness:
  "MissingInput \<in> set (addProofSchema (\<lambda>u. True) \<lparr>data_proofLink = Some [], data_file = None\<rparr>) \<and>
   addProofSchema (\<lambda>u. True)
     \<lparr>data_proofLink = Some ''https://example.com/x'',
      data_file = Some \<lparr>File_name = ''a.png'', File_type = ''image/png'', File_size = 10\<rparr>\<rparr> = []"
  using missing_input_iff [of "\<lambda>u. True" "\<lparr>data_proofLink = Some [], data_file = None\<rparr>"
      "''https://example.com/x''"
      "\<lparr>File_name = ''a.png'', File_type = ''image/png'', File_size = 10\<rparr>"]
  by (simp add: addProofSchema_def file_check_def startsWith_def maxSize_def)

text \<open>
  Claim C4. For a file whose mime type starts with neither \<open>image/\<close> nor
  \<open>video/\<close>, validation reports the issue "unsupported file type", whatever the size
  of the file (and whatever the link).
\<close>

theorem unsupported_file_type:
  "data_file data = Some f \<Longrightarrow> \<not> startsWith (File_type f) ''image/'' \<Longrightarrow>
   \<not> startsWith (File_type f) ''video/'' \<Longrightarrow>
   UnsupportedFileType \<in> set (addProofSchema is_url data)"
  using file_issue_other [of data f] by (simp add: set_addProofSchema)

text \<open>
  The theorem at a one-byte \<open>application/pdf\<close> file.
\<close>

theorem unsupported_file_type_witness:
  "UnsupportedFileType \<in> set (addProofSchema (\<lambda>u. True)
     \<lparr>data_proofLink = Some ''https://example.com/x'',
      data_file = Some \<lparr>File_name = ''a.pdf'', File_type = ''application/pdf'', File_size = 1\<rparr>\<rparr>)"
  using unsupported_file_type [of
     "\<lparr>data_proofLink = Some ''https://example.com/x'',
      data_file = Some \<lparr>File_name = ''a.pdf'', File_type = ''application/pdf'', File_size = 1\<rparr>\<rparr>"
     "\<lparr>File_name = ''a.pdf'', File_type = ''application/pdf'', File_size = 1\<rparr>" "\<lambda>u. True"]
  by (simp add: startsWith_def)

section \<open>Media viewer: properties\<close>

text \<open>
  The invariant of the viewer: each handler preserves the range of the pan, of the scale
  and of the rotation, and so does every sequence of events from the initial state.
\<close>

lemma constrain_bounds: "- 200 \<le> constrain n" "constrain n \<le> 200"
  by (simp_all add: constrain_def)

lemma pan_in_range_origin: "pan_in_range origin"
  by (simp add: pan_in_range_def origin_def)

lemma pan_in_range_constrain: "pan_in_range \<lparr>px = constrain a, py = constrain b\<rparr>"
  by (simp add: pan_in_range_def constrain_bounds)

lemma step_pan:
  "pan_in_range (panPosition v) \<Longrightarrow> pan_in_range (panPosition (step isImage v e))"
proof (cases e)
  case ZoomOut
  assume "pan_in_range (panPosition v)"
  then show ?thesis
    using ZoomOut by (simp add: handleZoomOut_def Let_def pan_in_range_origin)
next
  case (MouseMove p)
  assume "pan_in_range (panPosition v)"
  then show ?thesis
    using MouseMove by (simp add: handleMouseMove_def Let_def pan_in_range_constrain)
next
  case (TouchMove ts)
  assume "pan_in_range (panPosition v)"
  then show ?thesis
    using TouchMove
    by (simp add: handleTouchMove_def Let_def pan_in_range_constrain split: list.splits)
qed (simp_all add: handleZoomIn_def handleRotate_def handleReset_def handleMouseDown_def
      handleMouseUp_def handleMouseLeave_def handleTouchStart_def handleTouchEnd_def
      resetImageControls_def pan_in_range_origin split: list.splits)

lemma step_scale:
  "scale_in_range (imageScale v) \<Longrightarrow> scale_in_range (imageScale (step isImage v e))"
  by (cases e)
    (auto simp: scale_in_range_def handleZoomIn_def handleZoomOut_def handleRotate_def
      handleReset_def handleMouseDown_def handleMouseMove_def handleMouseUp_def
      handleMouseLeave_def handleTouchStart_def handleTouchMove_def handleTouchEnd_def
      resetImageControls_def Let_def split: list.splits)

lemma js_rem_quarter_turn: "rotation_ok r \<Longrightarrow> rotation_ok (js_rem (r + 90) 360)"
  by (auto simp: rotation_ok_def js_rem_def)

lemma js_rem_is_mod: "rotation_ok r \<Longrightarrow> js_rem (r + 90) 360 = (r + 90) mod 360"
  by (auto simp: rotation_ok_def js_rem_def)

lemma step_rotation:
  "rotation_ok (imageRotation v) \<Longrightarrow> rotation_ok (imageRotation (step isImage v e))"
proof (cases e)
  case Rotate
  assume "rotation_ok (imageRotation v)"
  then show ?thesis
    using Rotate js_rem_quarter_turn [of "imageRotation v"] by (simp add: handleRotate_def)
qed (auto simp: rotation_ok_def handleZoomIn_def handleZoomOut_def
      handleReset_def handleMouseDown_def handleMouseMove_def handleMouseUp_def
      handleMouseLeave_def handleTouchStart_def handleTouchMove_def handleTouchEnd_def
      resetImageControls_def Let_def split: list.splits)

lemma step_inv: "viewer_inv v \<Longrightarrow> viewer_inv (step isImage v e)"
  by (simp add: viewer_inv_def step_pan step_scale step_rotation)

lemma foldl_inv: "viewer_inv v \<Longrightarrow> viewer_inv (foldl (step isImage) v evs)"
  by (induction evs arbitrary: v) (simp_all add: step_inv)

lemma initial_inv: "viewer_inv initial_viewer"
  by (simp add: viewer_inv_def initial_viewer_def scale_in_range_def rotation_ok_def
      pan_in_range_origin)

lemma run_inv: "viewer_inv (run isImage evs)"
  unfolding run_def by (rule foldl_inv [OF initial_inv])


text \<open>
  Every scale the viewer reaches is a multiple of one quarter between 0.25 and 3: the
  values on which the arithmetic of JavaScript numbers is exact.
\<close>

lemma zoom_in_quarters: "s \<in> set scale_quarters \<Longrightarrow> min (s + 1/4) 3 \<in> set scale_quarters"
  unfolding scale_quarters_def by (elim set_ConsD [elim_format] disjE) simp_all

lemma zoom_out_quarters: "s \<in> set scale_quarters \<Longrightarrow> max (s - 1/4) (1/4) \<in> set scale_quarters"
  unfolding scale_quarters_def by (elim set_ConsD [elim_format] disjE) simp_all

lemma one_quarters: "1 \<in> set scale_quarters"
  by (simp add: scale_quarters_def)

lemma step_quarters:
  "imageScale v \<in> set scale_quarters \<Longrightarrow> imageScale (step isImage v e) \<in> set scale_quarters"
  by (cases e)
    (simp_all add: handleZoomIn_def handleZoomOut_def handleRotate_def
      handleReset_def handleMouseDown_def handleMouseMove_def handleMouseUp_def
      handleMouseLeave_def handleTouchStart_def handleTouchMove_def handleTouchEnd_def
      resetImageControls_def Let_def zoom_in_quarters zoom_out_quarters one_quarters
      split: list.splits)

lemma foldl_quarters:
  "imageScale v \<in> set scale_quarters \<Longrightarrow>
   imageScale (foldl (step isImage) v evs) \<in> set scale_quarters"
  by (induction evs arbitrary: v) (simp_all add: step_quarters)

lemma run_scale_quarters: "imageScale (run isImage evs) \<in> set scale_quarters"
  unfolding run_def
  by (rule foldl_quarters) (simp add: one_quarters initial_viewer_def)


lemma run_snoc: "run isImage (evs @ [e]) = step isImage (run isImage evs) e"
  by (simp add: run_def)

lemma four_quarter_turns:
  "rotation_ok r \<Longrightarrow>
   js_rem (js_rem (js_rem (js_rem (r + 90) 360 + 90) 360 + 90) 360 + 90) 360 = r"
  unfolding rotation_ok_def by (elim disjE) (simp_all add: js_rem_def)

lemma rotation_of_handleRotate:
  "imageRotation (handleRotate v) = js_rem (imageRotation v + 90) 360"
  by (simp add: handleRotate_def)

text \<open>
  Claim C6. After every sequence of viewer events both components of the pan offset lie
  between -200 and 200. While dragging at a scale above 1, a mouse move and a
  single-finger touch move set each axis of the pan to the pointer position minus the
  drag anchor, clamped to that interval; otherwise a move changes nothing; and every
  handler takes a pan inside the interval to a pan inside the interval.
\<close>

theorem pan_always_clamped:
  "pan_in_range (panPosition (run isImage evs)) \<and>
   (isDragging v \<and> imageScale v > 1 \<longrightarrow>
      panPosition (handleMouseMove e v) =
        \<lparr>px = max (- 200) (min 200 (px e - px (dragStart v))),
         py = max (- 200) (min 200 (py e - py (dragStart v)))\<rparr> \<and>
      panPosition (handleTouchMove [e] v) =
        \<lparr>px = max (- 200) (min 200 (px e - px (dragStart v))),
         py = max (- 200) (min 200 (py e - py (dragStart v)))\<rparr>) \<and>
   (\<not> (isDragging v \<and> imageScale v > 1) \<longrightarrow>
      handleMouseMove e v = v \<and> handleTouchMove ts v = v) \<and>
   (pan_in_range (panPosition v) \<longrightarrow> pan_in_range (panPosition (step isImage v ev)))"
proof (intro conjI impI)
  show "pan_in_range (panPosition (run isImage evs))"
    using run_inv [of isImage evs] by (simp add: viewer_inv_def)
  show "pan_in_range (panPosition (step isImage v ev))" if "pan_in_range (panPosition v)"
    using that by (rule step_pan)
  show "handleMouseMove e v = v" if "\<not> (isDragging v \<and> imageScale v > 1)"
    using that by (auto simp: handleMouseMove_def)
  show "handleTouchMove ts v = v" if "\<not> (isDragging v \<and> imageScale v > 1)"
    using that by (auto simp: handleTouchMove_def split: list.splits)
next
  assume drag: "isDragging v \<and> imageScale v > 1"
  then show "panPosition (handleMouseMove e v) =
        \<lparr>px = max (- 200) (min 200 (px e - px (dragStart v))),
         py = max (- 200) (min 200 (py e - py (dragStart v)))\<rparr>"
    by (simp add: handleMouseMove_def Let_def constrain_def)
  from drag show "panPosition (handleTouchMove [e] v) =
        \<lparr>px = max (- 200) (min 200 (px e - px (dragStart v))),
         py = max (- 200) (min 200 (py e - py (dragStart v)))\<rparr>"
    by (simp add: handleTouchMove_def Let_def constrain_def)
qed

text \<open>
  Claim C7. After every sequence of viewer events the scale lies between 0.25 and 3.
  Zooming in sets the scale to \<open>min (scale + 0.25) 3\<close>, zooming out to
  \<open>max (scale - 0.25) 0.25\<close>, so neither leaves the range, and any number of zoom-ins
  at 3 or of zoom-outs at 0.25 leaves the scale where it is.
\<close>

theorem scale_always_bounded:
  "1/4 \<le> imageScale (run isImage evs) \<and> imageScale (run isImage evs) \<le> 3 \<and>
   imageScale (handleZoomIn v) = min (imageScale v + 1/4) 3 \<and>
   imageScale (handleZoomOut v) = max (imageScale v - 1/4) (1/4) \<and>
   imageScale (handleZoomIn v) \<le> 3 \<and> 1/4 \<le> imageScale (handleZoomOut v) \<and>
   (imageScale v = 3 \<longrightarrow> imageScale ((handleZoomIn ^^ n) v) = 3) \<and>
   (imageScale v = 1/4 \<longrightarrow> imageScale ((handleZoomOut ^^ n) v) = 1/4)"
proof (intro conjI impI)
  show "1/4 \<le> imageScale (run isImage evs)" "imageScale (run isImage evs) \<le> 3"
    using run_inv [of isImage evs] by (simp_all add: viewer_inv_def scale_in_range_def)
  show "imageScale (handleZoomIn v) = min (imageScale v + 1/4) 3"
    by (simp add: handleZoomIn_def)
  show "imageScale (handleZoomOut v) = max (imageScale v - 1/4) (1/4)"
    by (simp add: handleZoomOut_def Let_def)
  show "imageScale (handleZoomIn v) \<le> 3"
    by (simp add: handleZoomIn_def)
  show "1/4 \<le> imageScale (handleZoomOut v)"
    by (simp add: handleZoomOut_def Let_def)
  show "imageScale ((handleZoomIn ^^ n) v) = 3" if "imageScale v = 3"
    using that by (induction n) (simp_all add: handleZoomIn_def)
  show "imageScale ((handleZoomOut ^^ n) v) = 1/4" if "imageScale v = 1/4"
    using that by (induction n) (simp_all add: handleZoomOut_def Let_def)
qed

text \<open>
  Claim C8. For every state an image viewer reaches, the transform of the image element
  is \<open>scale(s) rotate(r) translate(x / s, y / s)\<close> for the current scale \<open>s\<close>,
  rotation \<open>r\<close> and pan \<open>(x, y)\<close>; the scale is at least 0.25, hence positive, so
  the division is meaningful: the translate amount times the scale is the pan offset.
  For a file that is not an image no image element is rendered.
\<close>

theorem img_transform_unscaled:
  "(let v = run True evs; s = imageScale v; r = imageRotation v;
        x = px (panPosition v); y = py (panPosition v)
    in img_transform True v = Some [Scale s, RotateDeg r, TranslatePx (x / s) (y / s)] \<and>
       1/4 \<le> s \<and> 0 < s \<and> (x / s) * s = x \<and> (y / s) * s = y) \<and>
   img_transform False (run False evs) = None"
proof -
  have "1/4 \<le> imageScale (run True evs)"
    using run_inv [of True evs] by (simp add: viewer_inv_def scale_in_range_def)
  then have "0 < imageScale (run True evs)"
    by simp
  with \<open>1/4 \<le> imageScale (run True evs)\<close> show ?thesis
    by (simp add: Let_def img_transform_def)
qed

text \<open>
  Claim C9. In every state the viewer reaches, rotating four times brings the rotation
  back to its value; from the initial state four rotations give 0. In these states the
  rotation is one of 0, 90, 180, 270, and one rotation takes it to
  \<open>(rotation + 90) mod 360\<close>.
\<close>

theorem rotate_four_times:
  "imageRotation (handleRotate (handleRotate (handleRotate (handleRotate (run isImage evs))))) =
     imageRotation (run isImage evs) \<and>
   imageRotation (run isImage (evs @ [Rotate, Rotate, Rotate, Rotate])) =
     imageRotation (run isImage evs) \<and>
   imageRotation (run isImage [Rotate, Rotate, Rotate, Rotate]) = 0 \<and>
   imageRotation (handleRotate (run isImage evs)) = (imageRotation (run isImage evs) + 90) mod 360 \<and>
   imageRotation (run isImage evs) \<in> {0, 90, 180, 270}"
proof -
  have ok: "rotation_ok (imageRotation (run isImage evs))"
    using run_inv [of isImage evs] by (simp add: viewer_inv_def)
  have four: "imageRotation (handleRotate (handleRotate (handleRotate (handleRotate v)))) =
      imageRotation v" if "rotation_ok (imageRotation v)" for v
    using four_quarter_turns [OF that] by (simp add: rotation_of_handleRotate)
  have "run isImage (evs @ [Rotate, Rotate, Rotate, Rotate]) =
      handleRotate (handleRotate (handleRotate (handleRotate (run isImage evs))))"
    by (simp add: run_def)
  moreover have "imageRotation (run isImage [Rotate, Rotate, Rotate, Rotate]) = 0"
    by (simp add: run_def initial_viewer_def handleRotate_def js_rem_def)
  moreover have "imageRotation (handleRotate (run isImage evs)) =
      (imageRotation (run isImage evs) + 90) mod 360"
    using js_rem_is_mod [OF ok] by (simp add: rotation_of_handleRotate)
  moreover have "imageRotation (run isImage evs) \<in> {0, 90, 180, 270}"
    using ok by (simp add: rotation_ok_def)
  ultimately show ?thesis
    using four [OF ok] by simp
qed


lemmas handler_defs =
  handleZoomIn_def handleZoomOut_def handleRotate_def handleReset_def handleMouseDown_def
  handleMouseMove_def handleMouseUp_def handleMouseLeave_def handleTouchStart_def
  handleTouchMove_def handleTouchEnd_def resetImageControls_def

text \<open>
  The theorem on a drag far beyond the range, which is clamped to \<open>(200, -200)\<close>.
\<close>

theorem pan_always_clamped_witness:
  "panPosition (run True [ZoomIn, MouseDown \<lparr>px = 10, py = 10\<rparr>,
                          MouseMove \<lparr>px = 500, py = - 500\<rparr>]) = \<lparr>px = 200, py = - 200\<rparr> \<and>
   pan_in_range (panPosition (run True [ZoomIn, MouseDown \<lparr>px = 10, py = 10\<rparr>,
                          MouseMove \<lparr>px = 500, py = - 500\<rparr>])) \<and>
   isDragging (run True [ZoomIn, MouseDown \<lparr>px = 10, py = 10\<rparr>]) \<and>
   imageScale (run True [ZoomIn, MouseDown \<lparr>px = 10, py = 10\<rparr>]) > 1"
  using pan_always_clamped [of True
      "[ZoomIn, MouseDown \<lparr>px = 10, py = 10\<rparr>, MouseMove \<lparr>px = 500, py = - 500\<rparr>]"
      "run True [ZoomIn, MouseDown \<lparr>px = 10, py = 10\<rparr>]" "\<lparr>px = 500, py = - 500\<rparr>"
      "[]" "MouseMove \<lparr>px = 500, py = - 500\<rparr>"]
  by (simp add: run_def initial_viewer_def origin_def handler_defs Let_def constrain_def
      pan_in_range_def)

text \<open>
  The theorem at the upper bound, reached by eight zoom-ins, and at the lower bound,
  reached by three zoom-outs.
\<close>

theorem scale_always_bounded_witness:
  "imageScale (run True [ZoomIn, ZoomIn, ZoomIn, ZoomIn, ZoomIn, ZoomIn, ZoomIn, ZoomIn]) = 3 \<and>
   imageScale ((handleZoomIn ^^ Suc (Suc 0))
     (run True [ZoomIn, ZoomIn, ZoomIn, ZoomIn, ZoomIn, ZoomIn, ZoomIn, ZoomIn])) = 3 \<and>
   imageScale (run True [ZoomOut, ZoomOut, ZoomOut]) = 1/4 \<and>
   imageScale ((handleZoomOut ^^ Suc (Suc 0)) (run True [ZoomOut, ZoomOut, ZoomOut])) = 1/4"
  using scale_always_bounded [of True "[ZoomIn, ZoomIn, ZoomIn, ZoomIn, ZoomIn, ZoomIn, ZoomIn, ZoomIn]"
      "run True [ZoomIn, ZoomIn, ZoomIn, ZoomIn, ZoomIn, ZoomIn, ZoomIn, ZoomIn]" "Suc (Suc 0)"]
    scale_always_bounded [of True "[ZoomOut, ZoomOut, ZoomOut]"
      "run True [ZoomOut, ZoomOut, ZoomOut]" "Suc (Suc 0)"]
  by (simp add: run_def initial_viewer_def origin_def handler_defs Let_def)

text \<open>
  The theorem after zooming to 1.25 and dragging to the pan \<open>(200, -200)\<close>: the
  translate amount is \<open>(160, -160)\<close>.
\<close>

theorem img_transform_unscaled_witness:
  "img_transform True (run True [ZoomIn, MouseDown \<lparr>px = 10, py = 10\<rparr>,
                                 MouseMove \<lparr>px = 500, py = - 500\<rparr>]) =
     Some [Scale (5/4), RotateDeg 0, TranslatePx 160 (- 160)]"
  using img_transform_unscaled [of
      "[ZoomIn, MouseDown \<lparr>px = 10, py = 10\<rparr>, MouseMove \<lparr>px = 500, py = - 500\<rparr>]"]
  by (simp add: run_def initial_viewer_def origin_def handler_defs Let_def constrain_def)

text \<open>
  The theorem after one rotation: four more rotations give 90 again.
\<close>

theorem rotate_four_times_witness:
  "imageRotation (run True [Rotate]) = 90 \<and>
   imageRotation (run True [Rotate, Rotate, Rotate, Rotate, Rotate]) = 90"
  using rotate_four_times [of True "[Rotate]"]
  by (simp add: run_def initial_viewer_def handleRotate_def js_rem_def)

section \<open>File upload zone: properties\<close>

lemma precheck_iff:
  "precheck f =
     ((startsWith (File_type f) ''image/'' \<and> File_size f \<le> 1048576) \<or>
      (startsWith (File_type f) ''video/'' \<and> File_size f \<le> 5242880))"
  by (simp add: precheck_def file_check_Some)

lemma handleFileDrop_Cons:
  "handleFileDrop (f # rest) =
     (if precheck f then [OnFileChange (Some f)]
      else if \<not> startsWith (File_type f) ''image/'' \<and> \<not> startsWith (File_type f) ''video/''
      then [ZoneAlert ''Please upload only image or video files'']
      else [ZoneAlert (''File size must be less than '' @
                       (if startsWith (File_type f) ''image/'' then ''1MB'' else ''5MB''))])"
  using image_not_video [of "File_type f"]
  by (auto simp: handleFileDrop_def precheck_iff Let_def maxSize_def)

text \<open>
  The drag-and-drop path, with the gate of the drop target. A payload without files, or
  whose first file is neither image nor video, is refused by \<open>canDrop\<close> and the handler
  does not run; a first file of the right class that is too large gets the alert about
  its size; only a first file that passes the type and size check of the validation
  rules reaches the accept callback.
\<close>

lemma zone_drop_cases:
  "zone_drop files =
     (case files of
        [] \<Rightarrow> []
      | f # _ \<Rightarrow>
          if precheck f then [OnFileChange (Some f)]
          else if startsWith (File_type f) ''image/'' \<or> startsWith (File_type f) ''video/''
          then [ZoneAlert (''File size must be less than '' @
                           (if startsWith (File_type f) ''image/'' then ''1MB'' else ''5MB''))]
          else [])"
proof (cases files)
  case Nil
  then show ?thesis by (simp add: zone_drop_def canDrop_def)
next
  case (Cons f rest)
  then show ?thesis
    by (auto simp: zone_drop_def canDrop_def handleFileDrop_Cons precheck_iff)
qed

lemma zone_drop_accepts:
  "OnFileChange g \<in> set (zone_drop files) \<Longrightarrow>
   \<exists>f rest. files = f # rest \<and> g = Some f \<and> precheck f"
  by (cases files) (simp_all add: zone_drop_cases split: if_splits)

lemma zone_drop_rejects:
  "files = f # rest \<Longrightarrow> \<not> precheck f \<Longrightarrow> canDrop files \<Longrightarrow>
   \<exists>m. m \<noteq> [] \<and> zone_drop files = [ZoneAlert m]"
  by (simp add: zone_drop_cases canDrop_def)

lemma zone_drop_refused:
  "\<not> canDrop files \<Longrightarrow>
   zone_drop files = [] \<and> dropZoneLabel True (canDrop files) watchedFile = ''Invalid file type''"
  by (simp add: zone_drop_def dropZoneLabel_def)

lemma zone_drop_unchanged:
  "(case files of [] \<Rightarrow> True | f # _ \<Rightarrow> \<not> precheck f) \<Longrightarrow>
   selected_after cur (zone_drop files) = cur"
  by (cases files) (simp_all add: zone_drop_cases)

text \<open>
  Claim C5 at a 2 MiB \<open>image/png\<close>, which the type and size check rejects. Dropped on
  the zone, the file is refused with the alert about its size and the selection stays
  empty. Chosen in the native file picker, the same file goes to the accept callback
  with no check and becomes the selected file.
\<close>

theorem picker_skips_precheck:
  "\<not> precheck \<lparr>File_name = ''big.png'', File_type = ''image/png'', File_size = 2097152\<rparr> \<and>
   zone_drop [\<lparr>File_name = ''big.png'', File_type = ''image/png'', File_size = 2097152\<rparr>] =
     [ZoneAlert ''File size must be less than 1MB''] \<and>
   selected_after None
     (zone_drop [\<lparr>File_name = ''big.png'', File_type = ''image/png'', File_size = 2097152\<rparr>]) =
     None \<and>
   handleInputChange
     (Some [\<lparr>File_name = ''big.png'', File_type = ''image/png'', File_size = 2097152\<rparr>]) =
     [OnFileChange (Some \<lparr>File_name = ''big.png'', File_type = ''image/png'',
                           File_size = 2097152\<rparr>)] \<and>
   selected_after None (handleInputChange
     (Some [\<lparr>File_name = ''big.png'', File_type = ''image/png'', File_size = 2097152\<rparr>])) =
     Some \<lparr>File_name = ''big.png'', File_type = ''image/png'', File_size = 2097152\<rparr>"
  by (simp add: precheck_iff zone_drop_cases handleInputChange_def startsWith_def)

section \<open>Backend adapters and submission form: properties\<close>

text \<open>
  The paths of \<open>onSubmit\<close>: without a file; with a file whose upload throws, reports
  a non-empty error message, or reports none.
\<close>

lemma onSubmit_no_file:
  "data_file data = None \<Longrightarrow>
   onSubmit upload insertRecord now data =
     [SetIsSubmitting True] @ insert_step insertRecord now data None @ [SetIsSubmitting False]"
  by (simp add: onSubmit_def upload_step_def)

lemma onSubmit_upload_throws:
  "data_file data = Some f \<Longrightarrow> upload f = Inl e \<Longrightarrow>
   onSubmit upload insertRecord now data =
     [SetIsSubmitting True, CallUpload f] @ catch_block e @ [SetIsSubmitting False]"
  by (simp add: onSubmit_def upload_step_def)

lemma onSubmit_upload_error:
  "data_file data = Some f \<Longrightarrow> upload f = Inr r \<Longrightarrow> error r = Some m \<Longrightarrow> m \<noteq> [] \<Longrightarrow>
   onSubmit upload insertRecord now data =
     [SetIsSubmitting True, CallUpload f, Alert (''File upload failed: '' @ m),
      SetIsSubmitting False]"
  by (simp add: onSubmit_def upload_step_def)

lemma onSubmit_upload_ok:
  "data_file data = Some f \<Longrightarrow> upload f = Inr r \<Longrightarrow> \<not> truthy_string (error r) \<Longrightarrow>
   onSubmit upload insertRecord now data =
     [SetIsSubmitting True, CallUpload f] @ insert_step insertRecord now data (Some (url r)) @
     [SetIsSubmitting False]"
  by (simp add: onSubmit_def upload_step_def)

lemma insert_step_no_upload: "filter is_upload (insert_step insertRecord now data u) = []"
  by (simp add: insert_step_def Let_def catch_block_def split: sum.splits)

text \<open>
  The upload, when a file is present, is the first call of the submission and the only
  upload; every insert comes after it. Without a file there is no upload.
\<close>

lemma upload_before_insert:
  "(data_file data = None \<longrightarrow> filter is_upload (onSubmit upload insertRecord now data) = []) \<and>
   (data_file data = Some f \<longrightarrow>
      (\<exists>rest. onSubmit upload insertRecord now data = [SetIsSubmitting True, CallUpload f] @ rest \<and>
         filter is_upload rest = []))"
proof (intro conjI impI)
  show "filter is_upload (onSubmit upload insertRecord now data) = []" if "data_file data = None"
    using that by (simp add: onSubmit_no_file insert_step_no_upload)
  show "\<exists>rest. onSubmit upload insertRecord now data = [SetIsSubmitting True, CallUpload f] @ rest \<and>
      filter is_upload rest = []" if f: "data_file data = Some f"
  proof (cases "upload f")
    case (Inl e)
    show ?thesis
      using onSubmit_upload_throws [where upload = upload, OF f Inl]
      by (simp add: catch_block_def)
  next
    case (Inr r)
    show ?thesis
    proof (cases "truthy_string (error r)")
      case True
      then obtain m where "error r = Some m" "m \<noteq> []"
        by (cases "error r") simp_all
      then show ?thesis
        using onSubmit_upload_error [where upload = upload, OF f Inr] by simp
    next
      case False
      show ?thesis
        using onSubmit_upload_ok [where upload = upload, OF f Inr False]
        by (simp add: insert_step_no_upload)
    qed
  qed
qed

lemma insert_step_result:
  "SetSubmissionResult r \<in> set (insert_step insertRecord now data u) \<Longrightarrow>
   status r = ''pending'' \<and> fileUrl r = u \<and> submittedAt r = now \<and>
   (\<exists>p d. CallInsert p \<in> set (insert_step insertRecord now data u) \<and>
      insertRecord p = Inr d \<and> success d \<and> result_id r = db_id d)"
  by (auto simp: insert_step_def Let_def catch_block_def split: sum.splits if_splits)

lemma insert_step_failure:
  "CallInsert p \<in> set (insert_step insertRecord now data u) \<Longrightarrow>
   insertRecord p = Inr d \<Longrightarrow> \<not> success d \<Longrightarrow>
   insert_step insertRecord now data u =
     [CallInsert p, Alert (''Database error: '' @ template_string (db_error d))]"
  by (auto simp: insert_step_def Let_def catch_block_def split: sum.splits if_splits)

lemma insert_step_throws:
  "CallInsert p \<in> set (insert_step insertRecord now data u) \<Longrightarrow>
   insertRecord p = Inl e \<Longrightarrow>
   insert_step insertRecord now data u = CallInsert p # catch_block e"
  by (auto simp: insert_step_def Let_def catch_block_def split: sum.splits if_splits)

text \<open>
  A \<open>SubmissionResult\<close> is set only if the insert was called and reported success;
  it has the status \<open>pending\<close> and the identifier of the insert; with a file, the
  upload returned without a truthy error.
\<close>

lemma result_only_on_success:
  assumes "SetSubmissionResult r \<in> set (onSubmit upload insertRecord now data)"
  shows "status r = ''pending'' \<and>
     (\<exists>p d. CallInsert p \<in> set (onSubmit upload insertRecord now data) \<and>
        insertRecord p = Inr d \<and> success d \<and> result_id r = db_id d) \<and>
     (\<forall>f. data_file data = Some f \<longrightarrow>
        (\<exists>u. upload f = Inr u \<and> \<not> truthy_string (error u) \<and> fileUrl r = Some (url u)))"
proof (cases "data_file data")
  case None
  with assms have "SetSubmissionResult r \<in> set (insert_step insertRecord now data None)"
    by (simp add: onSubmit_no_file)
  from insert_step_result [OF this] show ?thesis
    using None by (auto simp: onSubmit_no_file)
next
  case (Some f)
  show ?thesis
  proof (cases "upload f")
    case (Inl e)
    with assms show ?thesis
      using onSubmit_upload_throws [where upload = upload, OF Some Inl]
      by (simp add: catch_block_def)
  next
    case (Inr u)
    show ?thesis
    proof (cases "truthy_string (error u)")
      case True
      then obtain m where "error u = Some m" "m \<noteq> []"
        by (cases "error u") simp_all
      with assms show ?thesis
        using onSubmit_upload_error [where upload = upload, OF Some Inr] by simp
    next
      case False
      note ok = onSubmit_upload_ok [where upload = upload, OF Some Inr False]
      from assms have "SetSubmissionResult r \<in> set (insert_step insertRecord now data (Some (url u)))"
        by (simp add: ok)
      from insert_step_result [OF this] show ?thesis
        using Some Inr False by (auto simp: ok)
    qed
  qed
qed

text \<open>
  An insert that reports failure leaves no \<open>SubmissionResult\<close> and exactly one
  alert, with its message.
\<close>

lemma insert_error_aborts:
  assumes "CallInsert p \<in> set (onSubmit upload insertRecord now data)"
    and "insertRecord p = Inr d" and "\<not> success d"
  shows "filter is_result (onSubmit upload insertRecord now data) = [] \<and>
     alerts (onSubmit upload insertRecord now data) =
       [''Database error: '' @ template_string (db_error d)]"
proof -
  have step: "filter is_result (insert_step insertRecord now data u) = [] \<and>
      alerts (insert_step insertRecord now data u) =
        [''Database error: '' @ template_string (db_error d)]"
    if "CallInsert p \<in> set (insert_step insertRecord now data u)" for u
    unfolding insert_step_failure [OF that assms(2,3)] by simp
  have alerts_app: "alerts (xs @ ys) = alerts xs @ alerts ys" for xs ys
    by (induction xs rule: alerts.induct) simp_all
  show ?thesis
  proof (cases "data_file data")
    case None
    with assms(1) show ?thesis
      using step [of None] by (simp add: onSubmit_no_file alerts_app)
  next
    case (Some f)
    show ?thesis
    proof (cases "upload f")
      case (Inl e)
      with assms(1) show ?thesis
        using onSubmit_upload_throws [where upload = upload, OF Some Inl]
        by (simp add: catch_block_def)
    next
      case (Inr u)
      show ?thesis
      proof (cases "truthy_string (error u)")
        case True
        then obtain m where "error u = Some m" "m \<noteq> []"
          by (cases "error u") simp_all
        with assms(1) show ?thesis
          using onSubmit_upload_error [where upload = upload, OF Some Inr] by simp
      next
        case False
        note ok = onSubmit_upload_ok [where upload = upload, OF Some Inr False]
        from assms(1) show ?thesis
          using step [of "Some (url u)"] by (simp add: ok alerts_app)
      qed
    qed
  qed
qed

text \<open>
  Claim C10. The server action \<open>insertProofRecord\<close> asks the database about exactly
  one row: the five fields of the submission it is given, \<open>created_at\<close> equal to the
  server's clock reading and the status \<open>pending\<close>. Its result is the database's answer
  for that row, and it reports success exactly when the database accepted that row. The
  insert call of the form in the browser passes a \<open>ProofSubmission\<close>, which has those
  five fields and no other, built from the form data alone, and neither the call nor its
  argument depends on the browser's clock. So whenever a submission through the server
  action ends with a result, the database accepted a row with the form's link and file
  metadata, the server's \<open>created_at\<close> and the status \<open>pending\<close>, and the result
  carries the identifier of that row.
\<close>

theorem server_assigns_created_at_and_status:
  "insertProofRecord db_insert now proofData =
     (case db_insert
            \<lparr>proof_link = proofLink proofData, file_name = fileName proofData,
             file_url = fileUrl proofData, file_size = fileSize proofData,
             file_type = fileType proofData, created_at = now, row_status = ''pending''\<rparr> of
        DbThrows \<Rightarrow>
          \<lparr>success = False, db_error = Some ''Failed to save proof record'', db_id = None\<rparr>
      | DbError m \<Rightarrow> \<lparr>success = False, db_error = Some m, db_id = None\<rparr>
      | DbOk i \<Rightarrow> \<lparr>success = True, db_error = None, db_id = Some i\<rparr>) \<and>
   (success (insertProofRecord db_insert now proofData) \<longleftrightarrow>
      (\<exists>i. db_insert
            \<lparr>proof_link = proofLink proofData, file_name = fileName proofData,
             file_url = fileUrl proofData, file_size = fileSize proofData,
             file_type = fileType proofData, created_at = now, row_status = ''pending''\<rparr> =
           DbOk i)) \<and>
   filter is_insert (onSubmit upload insertRecord client_now data) =
     filter is_insert (onSubmit upload insertRecord client_now' data) \<and>
   (CallInsert p \<in> set (onSubmit upload insertRecord client_now data) \<longrightarrow>
      proofLink p = data_proofLink data \<and>
      fileName p = map_option File_name (data_file data) \<and>
      fileSize p = map_option File_size (data_file data) \<and>
      fileType p = map_option File_type (data_file data)) \<and>
   (SetSubmissionResult r
      \<in> set (onSubmit upload (\<lambda>q. Inr (insertProofRecord db_insert now q)) client_now data) \<longrightarrow>
      (\<exists>row i. db_insert row = DbOk i \<and> result_id r = Some i \<and>
         created_at row = now \<and> row_status row = ''pending'' \<and>
         proof_link row = data_proofLink data \<and>
         file_name row = map_option File_name (data_file data) \<and>
         file_url row = fileUrl r \<and>
         file_size row = map_option File_size (data_file data) \<and>
         file_type row = map_option File_type (data_file data)))"
proof -
  let ?row = "\<lambda>q. \<lparr>proof_link = proofLink q, file_name = fileName q,
             file_url = fileUrl q, file_size = fileSize q,
             file_type = fileType q, created_at = now, row_status = ''pending''\<rparr>"
  have unfolded: "insertProofRecord db_insert now q =
     (case db_insert (?row q) of
        DbThrows \<Rightarrow>
          \<lparr>success = False, db_error = Some ''Failed to save proof record'', db_id = None\<rparr>
      | DbError m \<Rightarrow> \<lparr>success = False, db_error = Some m, db_id = None\<rparr>
      | DbOk i \<Rightarrow> \<lparr>success = True, db_error = None, db_id = Some i\<rparr>)" for q
    by (simp add: insertProofRecord_def insert_row_def)
  have c1: "insertProofRecord db_insert now proofData =
     (case db_insert (?row proofData) of
        DbThrows \<Rightarrow>
          \<lparr>success = False, db_error = Some ''Failed to save proof record'', db_id = None\<rparr>
      | DbError m \<Rightarrow> \<lparr>success = False, db_error = Some m, db_id = None\<rparr>
      | DbOk i \<Rightarrow> \<lparr>success = True, db_error = None, db_id = Some i\<rparr>)"
    by (rule unfolded)
  have c2: "success (insertProofRecord db_insert now proofData) \<longleftrightarrow>
      (\<exists>i. db_insert (?row proofData) = DbOk i)"
    unfolding unfolded by (cases "db_insert (?row proofData)") simp_all
  have ins: "filter is_insert (insert_step ins' t data u) =
      [CallInsert \<lparr>proofLink = data_proofLink data,
                   fileName = map_option File_name (data_file data),
                   fileUrl = u,
                   fileSize = map_option File_size (data_file data),
                   fileType = map_option File_type (data_file data)\<rparr>]" for ins' t u
    by (simp add: insert_step_def Let_def catch_block_def split: sum.splits)
  have c3: "filter is_insert (onSubmit upload insertRecord client_now data) =
      filter is_insert (onSubmit upload insertRecord client_now' data)"
    by (simp add: onSubmit_def upload_step_def catch_block_def ins
        split: option.splits sum.splits prod.splits)
  have step_arg: "q = \<lparr>proofLink = data_proofLink data,
                   fileName = map_option File_name (data_file data),
                   fileUrl = u,
                   fileSize = map_option File_size (data_file data),
                   fileType = map_option File_type (data_file data)\<rparr>"
    if "CallInsert q \<in> set (insert_step ins' t data u)" for q ins' t u
  proof -
    from that have "CallInsert q \<in> set (filter is_insert (insert_step ins' t data u))"
      by simp
    then show ?thesis
      unfolding ins by simp
  qed
  have call_arg: "\<exists>u. q = \<lparr>proofLink = data_proofLink data,
                   fileName = map_option File_name (data_file data),
                   fileUrl = u,
                   fileSize = map_option File_size (data_file data),
                   fileType = map_option File_type (data_file data)\<rparr>"
    if "CallInsert q \<in> set (onSubmit upload ins' t data)" for q ins' t
  proof -
    from that obtain u where "CallInsert q \<in> set (insert_step ins' t data u)"
      by (auto simp: onSubmit_def upload_step_def catch_block_def
          split: option.splits sum.splits prod.splits if_splits)
    then show ?thesis
      using step_arg by blast
  qed
  have c4: "proofLink p = data_proofLink data \<and>
      fileName p = map_option File_name (data_file data) \<and>
      fileSize p = map_option File_size (data_file data) \<and>
      fileType p = map_option File_type (data_file data)"
    if "CallInsert p \<in> set (onSubmit upload insertRecord client_now data)"
    using call_arg [OF that] by auto
  have c5: "\<exists>row i. db_insert row = DbOk i \<and> result_id r = Some i \<and>
         created_at row = now \<and> row_status row = ''pending'' \<and>
         proof_link row = data_proofLink data \<and>
         file_name row = map_option File_name (data_file data) \<and>
         file_url row = fileUrl r \<and>
         file_size row = map_option File_size (data_file data) \<and>
         file_type row = map_option File_type (data_file data)"
    if res: "SetSubmissionResult r
      \<in> set (onSubmit upload (\<lambda>q. Inr (insertProofRecord db_insert now q)) client_now data)"
  proof -
    let ?ins = "\<lambda>q. Inr (insertProofRecord db_insert now q) :: thrown + db_result"
    from res obtain u where in_step: "SetSubmissionResult r \<in> set (insert_step ?ins client_now data u)"
      by (auto simp: onSubmit_def upload_step_def catch_block_def
          split: option.splits sum.splits prod.splits if_splits)
    from insert_step_result [OF in_step]
    obtain q d where url: "fileUrl r = u"
      and call: "CallInsert q \<in> set (insert_step ?ins client_now data u)"
      and d: "insertProofRecord db_insert now q = d" "success d" "result_id r = db_id d"
      by auto
    from d obtain i where ok: "db_insert (?row q) = DbOk i" and id: "result_id r = Some i"
      unfolding unfolded by (cases "db_insert (?row q)") auto
    have q: "q = \<lparr>proofLink = data_proofLink data,
                   fileName = map_option File_name (data_file data),
                   fileUrl = u,
                   fileSize = map_option File_size (data_file data),
                   fileType = map_option File_type (data_file data)\<rparr>"
      using step_arg [OF call] .
    show ?thesis
      using ok by (intro exI [of _ "?row q"] exI [of _ i]) (simp add: id q url)
  qed
  from c1 c2 c3 c4 c5 show ?thesis
    by blast
qed

text \<open>
  The theorem at a submission with a link only, against a database that accepts a row
  only if it carries the server's clock reading and the status \<open>pending\<close>: the insert
  succeeds with the identifier 7 and the result card shows it.
\<close>

theorem server_assigns_created_at_and_status_witness:
  "insertProofRecord
     (\<lambda>row. if created_at row = ''2026-01-01T00:00:00.000Z'' \<and> row_status row = ''pending''
          then DbOk 7 else DbError ''not stamped'')
     ''2026-01-01T00:00:00.000Z''
     \<lparr>proofLink = Some ''https://example.com/x'', fileName = None, fileUrl = None,
      fileSize = None, fileType = None\<rparr> =
     \<lparr>success = True, db_error = None, db_id = Some 7\<rparr> \<and>
   onSubmit (\<lambda>f. Inl ThrownOther)
     (\<lambda>q. Inr (insertProofRecord
        (\<lambda>row. if created_at row = ''2026-01-01T00:00:00.000Z'' \<and> row_status row = ''pending''
             then DbOk 7 else DbError ''not stamped'')
        ''2026-01-01T00:00:00.000Z'' q))
     ''2026-01-01T00:00:01.000Z''
     \<lparr>data_proofLink = Some ''https://example.com/x'', data_file = None\<rparr> =
   [SetIsSubmitting True,
    CallInsert \<lparr>proofLink = Some ''https://example.com/x'', fileName = None, fileUrl = None,
                fileSize = None, fileType = None\<rparr>,
    SetSubmissionResult
      \<lparr>proofLink = Some ''https://example.com/x'', fileName = None, fileUrl = None,
       fileSize = None, fileType = None, result_id = Some 7,
       submittedAt = ''2026-01-01T00:00:01.000Z'', status = ''pending''\<rparr>,
    ResetForm,
    SetIsSubmitting False]"
  using server_assigns_created_at_and_status [of
      "\<lambda>row. if created_at row = ''2026-01-01T00:00:00.000Z'' \<and> row_status row = ''pending''
          then DbOk 7 else DbError ''not stamped''"
      "''2026-01-01T00:00:00.000Z''"
      "\<lparr>proofLink = Some ''https://example.com/x'', fileName = None, fileUrl = None,
        fileSize = None, fileType = None\<rparr>"
      "\<lambda>f. Inl ThrownOther"
      "\<lambda>q. Inr (insertProofRecord
        (\<lambda>row. if created_at row = ''2026-01-01T00:00:00.000Z'' \<and> row_status row = ''pending''
             then DbOk 7 else DbError ''not stamped'')
        ''2026-01-01T00:00:00.000Z'' q)"
      "''2026-01-01T00:00:01.000Z''"
      "\<lparr>data_proofLink = Some ''https://example.com/x'', data_file = None\<rparr>"
      "''2026-01-01T00:00:02.000Z''"
      "\<lparr>proofLink = Some ''https://example.com/x'', fileName = None, fileUrl = None,
        fileSize = None, fileType = None\<rparr>"
      "\<lparr>proofLink = Some ''https://example.com/x'', fileName = None, fileUrl = None,
       fileSize = None, fileType = None, result_id = Some 7,
       submittedAt = ''2026-01-01T00:00:01.000Z'', status = ''pending''\<rparr>"]
  by (simp add: onSubmit_def upload_step_def insert_step_def Let_def)

text \<open>
  Claim C1 at a failed upload whose error message is the empty string. The upload
  adapter returns \<open>{ url: "", error: "" }\<close>; \<open>onSubmit\<close> tests the error by its
  truthiness, takes the upload for a success, calls the insert with the empty URL and
  sets a \<open>SubmissionResult\<close>: no alert, no abort. With a non-empty message the
  submission stops before the insert (\<open>onSubmit_upload_error\<close>).
\<close>

theorem empty_upload_error_reaches_insert:
  "onSubmit
     (\<lambda>f. Inr (uploadFileToSupabase (\<lambda>key f. StorageError []) (\<lambda>key. Some key)
                  ''proofs/1-a.png'' f))
     (\<lambda>p. Inr \<lparr>success = True, db_error = None, db_id = Some 7\<rparr>)
     ''2026-01-01T00:00:01.000Z''
     \<lparr>data_proofLink = None,
      data_file = Some \<lparr>File_name = ''a.png'', File_type = ''image/png'', File_size = 10\<rparr>\<rparr> =
   [SetIsSubmitting True,
    CallUpload \<lparr>File_name = ''a.png'', File_type = ''image/png'', File_size = 10\<rparr>,
    CallInsert \<lparr>proofLink = None, fileName = Some ''a.png'', fileUrl = Some [],
                fileSize = Some 10, fileType = Some ''image/png''\<rparr>,
    SetSubmissionResult
      \<lparr>proofLink = None, fileName = Some ''a.png'', fileUrl = Some [],
       fileSize = Some 10, fileType = Some ''image/png'', result_id = Some 7,
       submittedAt = ''2026-01-01T00:00:01.000Z'', status = ''pending''\<rparr>,
    ResetForm,
    SetIsSubmitting False]"
  by (simp add: onSubmit_def upload_step_def insert_step_def uploadFileToSupabase_def Let_def)

end
